theory Spec2Isabelle
  imports Main "HOL-Library.Multiset" "HOL-Library.Sublist"
begin

section \<open>Python values\<close>

text \<open>
  A Python \<^verbatim>\<open>str\<close> is a sequence of Unicode code points, so it is a list of naturals
  here (an Isabelle \<open>char\<close> is a byte). \<open>lit\<close> turns an ASCII literal of the source into
  such a string. Dictionary keys of the source are fixed identifiers and stay Isabelle
  strings; a dictionary is an association list read with \<open>map_of\<close>.
\<close>

type_synonym pystr = "nat list"

definition lit :: "string \<Rightarrow> pystr" where
  "lit s = map of_char s"

datatype pyval =
    PyStr pystr
  | PyList "pyval list"
  | PyDict "(string \<times> pyval) list"

type_synonym pydict = "(string \<times> pyval) list"

text \<open>Truthiness, as \<^verbatim>\<open>if x:\<close> and \<^verbatim>\<open>not x\<close> read a value: empty is false.\<close>

fun truthy :: "pyval \<Rightarrow> bool" where
  "truthy (PyStr s) = (s \<noteq> [])"
| "truthy (PyList xs) = (xs \<noteq> [])"
| "truthy (PyDict d) = (d \<noteq> [])"

text \<open>
  Exceptions are values. \<open>SyntaxError\<close> stands for the class and its subclasses
  (IndentationError, TabError). \<open>CancelledError\<close> and \<open>KeyboardInterrupt\<close> derive from
  BaseException only, so \<^verbatim>\<open>except Exception\<close> does not catch them.
\<close>

datatype exn =
    SyntaxError
  | ValueError
  | MemoryError
  | RecursionError
  | ImportError
  | OtherException
  | CancelledError
  | KeyboardInterrupt
  | RequestValidationError
  | RuntimeError pystr
  | HTTPException nat pyval

fun is_Exception :: "exn \<Rightarrow> bool" where
  "is_Exception CancelledError = False"
| "is_Exception KeyboardInterrupt = False"
| "is_Exception _ = True"

section \<open>backend/core/code\_parser.py\<close>

text \<open>
  The tree \<^verbatim>\<open>ast.parse\<close> returns: a node has a class and, in the order
  \<^verbatim>\<open>ast.iter_child_nodes\<close> yields them, its child nodes. Only the classes the source
  tests or the claims speak of are told apart; \<^verbatim>\<open>ast.AsyncFunctionDef\<close> is not a
  subclass of \<^verbatim>\<open>ast.FunctionDef\<close>.
\<close>

datatype node_class =
    Module
  | FunctionDef pystr
  | AsyncFunctionDef pystr
  | ClassDef pystr
  | OtherNode

datatype ast = Node node_class "ast list"


text \<open>
  What the process does that a caller can observe later: each run of the standard parser
  and each invocation of an LLM chain (the network call) is appended to a trace.
\<close>

datatype chain = ExplainChain | SuggestChain | DebugChain | WhatIfChain

datatype event =
    AstParse pystr
  | Ainvoke chain pydict

text \<open>
  \<^verbatim>\<open>ast.parse\<close> is the standard library's: its outcome on a string (a tree, or the
  exception it raises) is a parameter of the model.
\<close>

type_synonym parser = "pystr \<Rightarrow> exn + ast"

text \<open>
  \<^verbatim>\<open>
  def parse_python_code(code: str):
      try:
          tree = ast.parse(code)
          return tree
      except SyntaxError as e:
          print(f"Syntax Error during parsing: {e}")
          return None
  \<close>
  \<open>Inr None\<close> is the returned \<^verbatim>\<open>None\<close>; \<open>Inl e\<close> is an exception that leaves the
  function, which is every exception the handler's class does not cover.
\<close>

definition parse_python_code ::
  "parser \<Rightarrow> pystr \<Rightarrow> event list \<Rightarrow> (exn + ast option) \<times> event list" where
  "parse_python_code ast_parse code trace =
     (case ast_parse code of
        Inr tree \<Rightarrow> (Inr (Some tree), trace @ [AstParse code])
      | Inl e \<Rightarrow>
          if e = SyntaxError then (Inr None, trace @ [AstParse code])
          else (Inl e, trace @ [AstParse code]))"





subsection \<open>What the specification speaks of\<close>





section \<open>backend/core/llm\_services.py: provider selection\<close>

text \<open>
  The environment after \<^verbatim>\<open>load_dotenv()\<close> is a map from variable names to values.
  \<^verbatim>\<open>str.lower\<close> is Python's own and a parameter of the model. The constructor of a
  provider's client class is a library's: its outcome (a client, or the exception it
  raises) is a parameter too; the source calls it with the configured model name and
  the constant temperature 0.3.
\<close>

datatype provider_class = ChatOpenAI | ChatAnthropic | ChatGroq | ChatGoogleGenerativeAI

record provider_entry =
  client_class :: provider_class
  model :: pystr
  api_key_name :: pystr

datatype llm_client = LLMClient provider_class pystr

type_synonym environment = "pystr \<rightharpoonup> pystr"
type_synonym constructor = "provider_class \<Rightarrow> pystr \<Rightarrow> exn + llm_client"

definition PROVIDER_CONFIG :: "(pystr \<times> provider_entry) list" where
  "PROVIDER_CONFIG =
     [(lit ''openai'',
         \<lparr>client_class = ChatOpenAI, model = lit ''gpt-3.5-turbo'',
          api_key_name = lit ''OPENAI_API_KEY''\<rparr>),
      (lit ''anthropic'',
         \<lparr>client_class = ChatAnthropic, model = lit ''claude-3-sonnet-20240229'',
          api_key_name = lit ''ANTHROPIC_API_KEY''\<rparr>),
      (lit ''groq'',
         \<lparr>client_class = ChatGroq, model = lit ''llama3-8b-8192'',
          api_key_name = lit ''GROQ_API_KEY''\<rparr>),
      (lit ''google'',
         \<lparr>client_class = ChatGoogleGenerativeAI, model = lit ''gemini-pro'',
          api_key_name = lit ''GOOGLE_API_KEY''\<rparr>)]"

text \<open>\<^verbatim>\<open>LLM_PROVIDER = os.getenv("LLM_PROVIDER", "groq").lower()\<close>\<close>

definition LLM_PROVIDER :: "(pystr \<Rightarrow> pystr) \<Rightarrow> environment \<Rightarrow> pystr" where
  "LLM_PROVIDER lower environ =
     lower (case environ (lit ''LLM_PROVIDER'') of None \<Rightarrow> lit ''groq'' | Some v \<Rightarrow> v)"

text \<open>
  The value of the module variable \<^verbatim>\<open>llm\<close> when line 88 tests it, or the exception
  that left the module before. \<^verbatim>\<open>llm = None\<close> first; a supported provider with a
  non-empty key runs the constructor, whose ImportError and every other Exception are
  caught and leave \<^verbatim>\<open>llm = None\<close>; an exception outside Exception is not caught.
\<close>

definition select_llm ::
  "(pystr \<Rightarrow> pystr) \<Rightarrow> environment \<Rightarrow> constructor \<Rightarrow> exn + llm_client option" where
  "select_llm lower environ construct =
     (case map_of PROVIDER_CONFIG (LLM_PROVIDER lower environ) of
        Some config \<Rightarrow>
          (case environ (api_key_name config) of
             None \<Rightarrow> Inr None
           | Some api_key \<Rightarrow>
               if api_key = [] then Inr None
               else
                 (case construct (client_class config) (model config) of
                    Inr client \<Rightarrow> Inr (Some client)
                  | Inl e \<Rightarrow>
                      if e = ImportError then Inr None
                      else if is_Exception e then Inr None
                      else Inl e))
      | None \<Rightarrow> Inr None)"

text \<open>
  \<^verbatim>\<open>
  if llm is None:
      raise RuntimeError("Failed to initialize any LLM provider. ...")
  \<close>
  The import of the module ends with the client the four chains are built on, or with
  the exception that stops it. \<^verbatim>\<open>backend/main.py\<close> imports the service functions from
  this module in its first lines, so the application object and its request handlers
  exist only when this import has returned.
\<close>

definition no_provider_message :: pystr where
  "no_provider_message =
     lit ''Failed to initialize any LLM provider. Please check your .env configuration and installed packages.''"

definition import_llm_services ::
  "(pystr \<Rightarrow> pystr) \<Rightarrow> environment \<Rightarrow> constructor \<Rightarrow> exn + llm_client" where
  "import_llm_services lower environ construct =
     (case select_llm lower environ construct of
        Inl e \<Rightarrow> Inl e
      | Inr None \<Rightarrow> Inl (RuntimeError no_provider_message)
      | Inr (Some client) \<Rightarrow> Inr client)"

section \<open>backend/core/llm\_services.py: the four operations\<close>

text \<open>
  A chain is a prompt template piped into the client and a string parser; its
  \<^verbatim>\<open>ainvoke\<close> is the network call. What the provider answers (a text, or an exception)
  is a parameter of the model: a function of the whole trace up to and including the
  call, so that the same input may be answered differently at different times.
\<close>

type_synonym llm = "event list \<Rightarrow> exn + pystr"

definition ainvoke ::
  "llm \<Rightarrow> chain \<Rightarrow> pydict \<Rightarrow> event list \<Rightarrow> (exn + pystr) \<times> event list" where
  "ainvoke provider c inputs trace =
     (provider (trace @ [Ainvoke c inputs]), trace @ [Ainvoke c inputs])"

subsection \<open>\<^verbatim>\<open>str.split('\n')\<close> and \<^verbatim>\<open>str.strip()\<close>\<close>

text \<open>
  \<^verbatim>\<open>s.split(sep)\<close> with a one-character separator cuts at every occurrence and keeps
  empty pieces, so the empty string gives one empty piece. \<open>piece\<close> is the piece being
  read.
\<close>

fun split_from :: "nat \<Rightarrow> pystr \<Rightarrow> pystr \<Rightarrow> pystr list" where
  "split_from sep piece [] = [piece]"
| "split_from sep piece (c # cs) =
     (if c = sep then piece # split_from sep [] cs
      else split_from sep (piece @ [c]) cs)"

definition str_split :: "pystr \<Rightarrow> nat \<Rightarrow> pystr list" where
  "str_split s sep = split_from sep [] s"

text \<open>
  The code points \<^verbatim>\<open>str.isspace\<close> accepts (the whitespace \<^verbatim>\<open>str.strip()\<close> removes):
  U+0009 to U+000D, U+001C to U+0020, U+0085, U+00A0, U+1680, U+2000 to U+200A, U+2028,
  U+2029, U+202F, U+205F and U+3000.
\<close>

definition isspace :: "nat \<Rightarrow> bool" where
  "isspace c \<longleftrightarrow>
     (9 \<le> c \<and> c \<le> 13) \<or> (28 \<le> c \<and> c \<le> 32) \<or> c = 133 \<or> c = 160 \<or> c = 5760 \<or>
     (8192 \<le> c \<and> c \<le> 8202) \<or> c = 8232 \<or> c = 8233 \<or> c = 8239 \<or> c = 8287 \<or>
     c = 12288"

definition str_strip :: "pystr \<Rightarrow> pystr" where
  "str_strip s = rev (dropWhile isspace (rev (dropWhile isspace s)))"

definition newline :: nat where
  "newline = 10"

subsection \<open>The post-processing of suggest and debug\<close>

text \<open>
  \<^verbatim>\<open>suggestions_list = [s.strip() for s in suggestions_text.split('\n') if s.strip()]\<close>
  \<^verbatim>\<open>potential_bugs = [{"issue": line.strip()} for line in debug_text.split('\n') if line.strip()]\<close>
\<close>

definition suggestions_list :: "pystr \<Rightarrow> pystr list" where
  "suggestions_list suggestions_text =
     [str_strip s. s \<leftarrow> str_split suggestions_text newline, str_strip s \<noteq> []]"

definition potential_bugs :: "pystr \<Rightarrow> pydict list" where
  "potential_bugs debug_text =
     [[(''issue'', PyStr (str_strip line))].
        line \<leftarrow> str_split debug_text newline, str_strip line \<noteq> []]"

subsection \<open>Service functions\<close>

definition syntax_error_message :: pystr where
  "syntax_error_message = lit ''Syntax error in code, cannot parse.''"

text \<open>
  Each function returns its dictionary, or the exception that leaves it, and the trace.
  \<^verbatim>\<open>except Exception\<close> turns every Exception of the chain into the operation's fixed
  message. In \<open>get_code_explanation\<close> the parse stands before the \<^verbatim>\<open>try\<close>.
\<close>

definition get_code_explanation ::
  "parser \<Rightarrow> llm \<Rightarrow> pystr \<Rightarrow> event list \<Rightarrow> (exn + pydict) \<times> event list" where
  "get_code_explanation ast_parse provider code trace =
     (case parse_python_code ast_parse code trace of
        (Inl e, trace1) \<Rightarrow> (Inl e, trace1)
      | (Inr None, trace1) \<Rightarrow> (Inr [(''error'', PyStr syntax_error_message)], trace1)
      | (Inr (Some tree), trace1) \<Rightarrow>
          (case ainvoke provider ExplainChain [(''code'', PyStr code)] trace1 of
             (Inr explanation, trace2) \<Rightarrow>
               (Inr [(''overall_summary'', PyStr explanation)], trace2)
           | (Inl e, trace2) \<Rightarrow>
               if is_Exception e
               then (Inr [(''error'', PyStr (lit
                  ''Failed to get explanation from LLM: An internal error occurred.''))],
                  trace2)
               else (Inl e, trace2)))"

definition get_code_suggestions ::
  "llm \<Rightarrow> pystr \<Rightarrow> event list \<Rightarrow> (exn + pydict) \<times> event list" where
  "get_code_suggestions provider code trace =
     (case ainvoke provider SuggestChain [(''code'', PyStr code)] trace of
        (Inr suggestions_text, trace1) \<Rightarrow>
          (Inr [(''suggestions'', PyList (map PyStr (suggestions_list suggestions_text)))],
           trace1)
      | (Inl e, trace1) \<Rightarrow>
          if is_Exception e
          then (Inr [(''error'', PyStr (lit
             ''Failed to get suggestions from LLM: An internal error occurred.''))], trace1)
          else (Inl e, trace1))"

definition get_code_debugging_info ::
  "llm \<Rightarrow> pystr \<Rightarrow> event list \<Rightarrow> (exn + pydict) \<times> event list" where
  "get_code_debugging_info provider code trace =
     (case ainvoke provider DebugChain [(''code'', PyStr code)] trace of
        (Inr debug_text, trace1) \<Rightarrow>
          (Inr [(''potential_bugs'', PyList (map PyDict (potential_bugs debug_text)))],
           trace1)
      | (Inl e, trace1) \<Rightarrow>
          if is_Exception e
          then (Inr [(''error'', PyStr (lit
             ''Failed to get debugging info from LLM: An internal error occurred.''))],
             trace1)
          else (Inl e, trace1))"

definition answer_what_if_question ::
  "llm \<Rightarrow> pystr \<Rightarrow> pystr \<Rightarrow> event list \<Rightarrow> (exn + pydict) \<times> event list" where
  "answer_what_if_question provider code user_question trace =
     (case ainvoke provider WhatIfChain
             [(''code'', PyStr code), (''user_question'', PyStr user_question)] trace of
        (Inr response_text, trace1) \<Rightarrow>
          (Inr [(''explanation'', PyStr response_text)], trace1)
      | (Inl e, trace1) \<Rightarrow>
          if is_Exception e
          then (Inr [(''error'', PyStr (lit
             ''Failed to answer 'what if' question: An internal error occurred.''))],
             trace1)
          else (Inl e, trace1))"

section \<open>backend/models/schemas.py and backend/main.py\<close>

text \<open>
  \<^verbatim>\<open>
  class CodeInput(BaseModel):
      code: str
      language: str = "python"
      user_question: Optional[str] = None
  \<close>
\<close>

record CodeInput =
  code :: pystr
  language :: pystr
  user_question :: "pystr option"

text \<open>
  The body of a request is a JSON object: a key is absent, or holds \<^verbatim>\<open>null\<close>
  (\<open>None\<close>), or holds a value. A handler declared with \<^verbatim>\<open>payload: CodeInput\<close> runs only
  on a body the class accepts: \<open>code\<close> has no default and must be a string,
  \<open>language\<close> may be absent, \<open>user_question\<close> may be absent or null. The framework
  answers every other body itself, with status 422.
\<close>

type_synonym json_object = "(string \<times> pyval option) list"

definition validate_CodeInput :: "json_object \<Rightarrow> exn + CodeInput" where
  "validate_CodeInput body =
     (case map_of body ''code'' of
        Some (Some (PyStr c)) \<Rightarrow>
          (case map_of body ''language'' of
             None \<Rightarrow>
               (case map_of body ''user_question'' of
                  None \<Rightarrow>
                    Inr \<lparr>code = c, language = lit ''python'', user_question = None\<rparr>
                | Some None \<Rightarrow>
                    Inr \<lparr>code = c, language = lit ''python'', user_question = None\<rparr>
                | Some (Some (PyStr q)) \<Rightarrow>
                    Inr \<lparr>code = c, language = lit ''python'', user_question = Some q\<rparr>
                | Some (Some other) \<Rightarrow> Inl RequestValidationError)
           | Some (Some (PyStr l)) \<Rightarrow>
               (case map_of body ''user_question'' of
                  None \<Rightarrow> Inr \<lparr>code = c, language = l, user_question = None\<rparr>
                | Some None \<Rightarrow> Inr \<lparr>code = c, language = l, user_question = None\<rparr>
                | Some (Some (PyStr q)) \<Rightarrow>
                    Inr \<lparr>code = c, language = l, user_question = Some q\<rparr>
                | Some (Some other) \<Rightarrow> Inl RequestValidationError)
           | Some other \<Rightarrow> Inl RequestValidationError)
      | other \<Rightarrow> Inl RequestValidationError)"

text \<open>
  A response model built from the keyword arguments \<^verbatim>\<open>**result\<close>, and the status the
  framework gives an outcome: a returned model is a normal response (200), an
  HTTPException carries its own status, a rejected body is 422, any other exception is
  an internal server error.
\<close>

datatype response =
    ExplanationResponse pydict
  | SuggestionResponse pydict
  | DebugResponse pydict
  | WhatIfResponse pydict

fun status_code :: "exn + response \<Rightarrow> nat" where
  "status_code (Inr r) = 200"
| "status_code (Inl (HTTPException status detail)) = status"
| "status_code (Inl RequestValidationError) = 422"
| "status_code (Inl e) = 500"

text \<open>
  The tail every handler shares:
  \<^verbatim>\<open>
  if result.get("error"):
       raise HTTPException(status_code=status.HTTP_500_INTERNAL_SERVER_ERROR, detail=result["error"])
  return ExplanationResponse(**result)
  \<close>
  An exception that left the service function leaves the handler too.
\<close>

definition raise_or_return ::
  "(pydict \<Rightarrow> response) \<Rightarrow> (exn + pydict) \<times> event list \<Rightarrow> (exn + response) \<times> event list"
  where
  "raise_or_return response_model outcome =
     (case outcome of
        (Inl e, trace1) \<Rightarrow> (Inl e, trace1)
      | (Inr result, trace1) \<Rightarrow>
          (case map_of result ''error'' of
             None \<Rightarrow> (Inr (response_model result), trace1)
           | Some detail \<Rightarrow>
               if truthy detail then (Inl (HTTPException 500 detail), trace1)
               else (Inr (response_model result), trace1)))"

text \<open>
  \<^verbatim>\<open>
  @app.post("/explain", response_model=ExplanationResponse)
  async def explain_code(payload: CodeInput):
      if not payload.code:
          raise HTTPException(status_code=status.HTTP_400_BAD_REQUEST, detail="No code provided")
      result = await get_code_explanation(payload.code)
      ...
  \<close>
\<close>

definition explain_code ::
  "parser \<Rightarrow> llm \<Rightarrow> CodeInput \<Rightarrow> event list \<Rightarrow> (exn + response) \<times> event list" where
  "explain_code ast_parse provider payload trace =
     (if code payload = []
      then (Inl (HTTPException 400 (PyStr (lit ''No code provided''))), trace)
      else raise_or_return ExplanationResponse
             (get_code_explanation ast_parse provider (code payload) trace))"

definition suggest_improvements ::
  "llm \<Rightarrow> CodeInput \<Rightarrow> event list \<Rightarrow> (exn + response) \<times> event list" where
  "suggest_improvements provider payload trace =
     (if code payload = []
      then (Inl (HTTPException 400 (PyStr (lit ''No code provided''))), trace)
      else raise_or_return SuggestionResponse
             (get_code_suggestions provider (code payload) trace))"

definition debug_code ::
  "llm \<Rightarrow> CodeInput \<Rightarrow> event list \<Rightarrow> (exn + response) \<times> event list" where
  "debug_code provider payload trace =
     (if code payload = []
      then (Inl (HTTPException 400 (PyStr (lit ''No code provided''))), trace)
      else raise_or_return DebugResponse
             (get_code_debugging_info provider (code payload) trace))"

text \<open>
  \<^verbatim>\<open>
  if not payload.code or not payload.user_question:
      raise HTTPException(status_code=status.HTTP_400_BAD_REQUEST, detail="Code and user question required")
  \<close>
  \<^verbatim>\<open>not payload.user_question\<close> holds for \<^verbatim>\<open>None\<close> and for the empty string.
\<close>

definition what_if_scenario ::
  "llm \<Rightarrow> CodeInput \<Rightarrow> event list \<Rightarrow> (exn + response) \<times> event list" where
  "what_if_scenario provider payload trace =
     (case user_question payload of
        None \<Rightarrow>
          (Inl (HTTPException 400 (PyStr (lit ''Code and user question required''))), trace)
      | Some question \<Rightarrow>
          if code payload = [] \<or> question = []
          then (Inl (HTTPException 400 (PyStr (lit ''Code and user question required''))),
                trace)
          else raise_or_return WhatIfResponse
                 (answer_what_if_question provider (code payload) question trace))"

text \<open>
  A POST request as the framework serves it: the body is checked against
  \<open>CodeInput\<close> first, and the handler runs on the accepted payload.
\<close>

datatype endpoint = Explain | Suggest | Debug | WhatIf

definition post ::
  "parser \<Rightarrow> llm \<Rightarrow> endpoint \<Rightarrow> json_object \<Rightarrow> event list \<Rightarrow>
     (exn + response) \<times> event list" where
  "post ast_parse provider path body trace =
     (case validate_CodeInput body of
        Inl e \<Rightarrow> (Inl e, trace)
      | Inr payload \<Rightarrow>
          (case path of
             Explain \<Rightarrow> explain_code ast_parse provider payload trace
           | Suggest \<Rightarrow> suggest_improvements provider payload trace
           | Debug \<Rightarrow> debug_code provider payload trace
           | WhatIf \<Rightarrow> what_if_scenario provider payload trace))"

section \<open>Notions the claims use\<close>

text \<open>
  A line is blank when it has no character that is not whitespace (the empty line
  included). \<open>error_of\<close> reads the \<^verbatim>\<open>"error"\<close> entry of what a service function
  returned; an exception that left the function carries none.
\<close>

definition blank :: "pystr \<Rightarrow> bool" where
  "blank s \<longleftrightarrow> list_all isspace s"

definition error_of :: "exn + pydict \<Rightarrow> pyval option" where
  "error_of outcome =
     (case outcome of Inl e \<Rightarrow> None | Inr result \<Rightarrow> map_of result ''error'')"

section \<open>Sample environments\<close>

text \<open>
  Concrete surroundings for the evaluations below. \<open>unclosed_def\<close> is the text
  \<^verbatim>\<open>def f(:\<close>, which the standard parser rejects with a SyntaxError;
  \<open>rejecting_parse\<close> is a parser on such rejected inputs. \<open>deep_expression\<close> is
  200000 minus signs before a digit: CPython 3.11 gives up on it with a MemoryError
  (too complex to parse), which \<open>exhausted_parse\<close> reproduces. \<open>accepting_parse\<close>
  returns the tree of an empty module. \<open>fixed_reply\<close> is a provider that answers with
  three lines, the middle one blank; \<open>failing_provider\<close> is one whose call raises.
\<close>

definition unclosed_def :: pystr where
  "unclosed_def = lit ''def f(:''"

definition rejecting_parse :: parser where
  "rejecting_parse source = Inl SyntaxError"

definition deep_expression :: pystr where
  "deep_expression = replicate 200000 45 @ [49]"

definition exhausted_parse :: parser where
  "exhausted_parse source = Inl MemoryError"

definition accepting_parse :: parser where
  "accepting_parse source = Inr (Node Module [])"

definition reply_text :: pystr where
  "reply_text = [32, 85, 115, 101, 32, 97, 32, 115, 101, 116, 46, 9, 10,
                 12288, 32, 10, 45, 32, 82, 101, 110, 97, 109, 101, 32, 120, 46]"

definition fixed_reply :: llm where
  "fixed_reply trace = Inr reply_text"

definition failing_provider :: llm where
  "failing_provider trace = Inl OtherException"

definition ascii_lower :: "pystr \<Rightarrow> pystr" where
  "ascii_lower s = map (\<lambda>c. if 65 \<le> c \<and> c \<le> 90 then c + 32 else c) s"

definition groq_environment :: environment where
  "groq_environment =
     [lit ''LLM_PROVIDER'' \<mapsto> lit ''Groq'', lit ''GROQ_API_KEY'' \<mapsto> lit ''gsk-1'']"

definition working_constructor :: constructor where
  "working_constructor c m = Inr (LLMClient c m)"

definition broken_constructor :: constructor where
  "broken_constructor c m = Inl ImportError"

definition unclosed_payload :: CodeInput where
  "unclosed_payload =
     \<lparr>code = unclosed_def, language = lit ''python'', user_question = None\<rparr>"

definition empty_payload :: CodeInput where
  "empty_payload = \<lparr>code = [], language = lit ''python'', user_question = None\<rparr>"

definition deep_payload :: CodeInput where
  "deep_payload =
     \<lparr>code = deep_expression, language = lit ''python'', user_question = None\<rparr>"

section \<open>Function names of a parsed module\<close>









section \<open>The syntax pre-check\<close>

text \<open>
  Claim C1: for every code string on which \<open>parse_python_code\<close> returns \<^verbatim>\<open>None\<close>,
  \<open>get_code_explanation\<close> returns the dictionary whose \<^verbatim>\<open>"error"\<close> entry is the
  syntax-error message, and the only thing it has done is the parse: no chain was
  invoked, so the network call is not reached.
\<close>

theorem explanation_stops_at_syntax_error:
  assumes "fst (parse_python_code ast_parse source trace) = Inr None"
  shows "get_code_explanation ast_parse provider source trace =
           (Inr [(''error'', PyStr (lit ''Syntax error in code, cannot parse.''))],
            trace @ [AstParse source])"
  using assms
  by (auto simp: get_code_explanation_def parse_python_code_def syntax_error_message_def
      split: sum.splits if_splits)

theorem explanation_stops_at_syntax_error_witness:
  "fst (parse_python_code rejecting_parse unclosed_def []) = Inr None
   \<and> get_code_explanation rejecting_parse fixed_reply unclosed_def [] =
       (Inr [(''error'', PyStr (lit ''Syntax error in code, cannot parse.''))],
        [AstParse unclosed_def])"
proof -
  have rejected: "fst (parse_python_code rejecting_parse unclosed_def []) = Inr None"
    by (simp add: parse_python_code_def rejecting_parse_def)
  show ?thesis
    using rejected explanation_stops_at_syntax_error [OF rejected, of fixed_reply]
    by simp
qed

text \<open>
  Claim C2, as the code has it: when the pre-check fails on \<^verbatim>\<open>/explain\<close>, the handler
  finds the \<^verbatim>\<open>"error"\<close> entry in the service's dictionary and raises an HTTPException
  with status 500 whose detail is the syntax-error message; no response model is
  returned, and no chain is invoked.
\<close>

theorem explain_syntax_error_raises_500:
  assumes "code payload \<noteq> []"
    and "fst (parse_python_code ast_parse (code payload) trace) = Inr None"
  shows "explain_code ast_parse provider payload trace =
           (Inl (HTTPException 500 (PyStr (lit ''Syntax error in code, cannot parse.''))),
            trace @ [AstParse (code payload)])
         \<and> status_code (fst (explain_code ast_parse provider payload trace)) = 500"
  using assms
  by (auto simp: explain_code_def raise_or_return_def get_code_explanation_def
      parse_python_code_def syntax_error_message_def lit_def
      split: sum.splits if_splits)

theorem explain_syntax_error_raises_500_witness:
  "code unclosed_payload \<noteq> []
   \<and> fst (parse_python_code rejecting_parse (code unclosed_payload) []) = Inr None
   \<and> explain_code rejecting_parse fixed_reply unclosed_payload [] =
       (Inl (HTTPException 500 (PyStr (lit ''Syntax error in code, cannot parse.''))),
        [AstParse unclosed_def])"
proof -
  have given: "code unclosed_payload \<noteq> []"
    by (simp add: unclosed_payload_def unclosed_def_def lit_def)
  have rejected:
    "fst (parse_python_code rejecting_parse (code unclosed_payload) []) = Inr None"
    by (simp add: parse_python_code_def rejecting_parse_def)
  have "code unclosed_payload = unclosed_def"
    by (simp add: unclosed_payload_def)
  then show ?thesis
    using given rejected
      explain_syntax_error_raises_500 [OF given rejected, of fixed_reply]
    by simp
qed

text \<open>
  The request \<^verbatim>\<open>{"code": "def f(:"}\<close> to \<^verbatim>\<open>/explain\<close> is not answered with a response
  body that carries an \<^verbatim>\<open>"error"\<close> field: the handler raises, and the status is 500.
\<close>

theorem explain_syntax_error_not_in_body:
  "fst (explain_code rejecting_parse fixed_reply unclosed_payload []) =
      Inl (HTTPException 500 (PyStr syntax_error_message))
   \<and> status_code (fst (explain_code rejecting_parse fixed_reply unclosed_payload [])) = 500"
  by (simp add: explain_code_def raise_or_return_def get_code_explanation_def
      parse_python_code_def syntax_error_message_def lit_def unclosed_payload_def
      unclosed_def_def rejecting_parse_def)

text \<open>
  Claim C8 at a concrete input: on 200000 minus signs before a digit the standard parser
  raises MemoryError, which is not a SyntaxError; \<open>parse_python_code\<close> does not return
  \<^verbatim>\<open>None\<close> there but lets the exception out, and the \<^verbatim>\<open>/explain\<close> handler, which
  parses outside its \<^verbatim>\<open>try\<close>, lets it out as well.
\<close>

theorem parse_python_code_lets_memory_error_out:
  "parse_python_code exhausted_parse deep_expression [] =
     (Inl MemoryError, [AstParse deep_expression])
   \<and> fst (explain_code exhausted_parse fixed_reply deep_payload []) = Inl MemoryError"
  by (simp add: parse_python_code_def exhausted_parse_def explain_code_def
      raise_or_return_def get_code_explanation_def deep_payload_def deep_expression_def)

section \<open>The operations without a pre-check\<close>

lemma suggestions_message_differs:
  "lit ''Failed to get suggestions from LLM: An internal error occurred.''
     \<noteq> syntax_error_message"
  by (simp add: lit_def syntax_error_message_def)

lemma debugging_message_differs:
  "lit ''Failed to get debugging info from LLM: An internal error occurred.''
     \<noteq> syntax_error_message"
  by (simp add: lit_def syntax_error_message_def)

lemma what_if_message_differs:
  "lit ''Failed to answer 'what if' question: An internal error occurred.''
     \<noteq> syntax_error_message"
  by (simp add: lit_def syntax_error_message_def)

text \<open>
  Claim C5: for every code string, valid Python or not, \<open>get_code_suggestions\<close>,
  \<open>get_code_debugging_info\<close> and \<open>answer_what_if_question\<close> invoke their chain and do
  nothing else: the trace gains exactly the call of the chain on the given text (no run
  of the parser), and whatever is returned does not carry the syntax-error message in
  its \<^verbatim>\<open>"error"\<close> entry.
\<close>

theorem unchecked_operations_reach_the_llm:
  "snd (get_code_suggestions provider source trace) =
      trace @ [Ainvoke SuggestChain [(''code'', PyStr source)]]
   \<and> snd (get_code_debugging_info provider source trace) =
      trace @ [Ainvoke DebugChain [(''code'', PyStr source)]]
   \<and> snd (answer_what_if_question provider source question trace) =
      trace @ [Ainvoke WhatIfChain
                 [(''code'', PyStr source), (''user_question'', PyStr question)]]
   \<and> error_of (fst (get_code_suggestions provider source trace))
        \<noteq> Some (PyStr syntax_error_message)
   \<and> error_of (fst (get_code_debugging_info provider source trace))
        \<noteq> Some (PyStr syntax_error_message)
   \<and> error_of (fst (answer_what_if_question provider source question trace))
        \<noteq> Some (PyStr syntax_error_message)"
proof (intro conjI)
  show "snd (get_code_suggestions provider source trace) =
      trace @ [Ainvoke SuggestChain [(''code'', PyStr source)]]"
    by (simp add: get_code_suggestions_def ainvoke_def split: sum.splits)
  show "snd (get_code_debugging_info provider source trace) =
      trace @ [Ainvoke DebugChain [(''code'', PyStr source)]]"
    by (simp add: get_code_debugging_info_def ainvoke_def split: sum.splits)
  show "snd (answer_what_if_question provider source question trace) =
      trace @ [Ainvoke WhatIfChain
                 [(''code'', PyStr source), (''user_question'', PyStr question)]]"
    by (simp add: answer_what_if_question_def ainvoke_def split: sum.splits)
  show "error_of (fst (get_code_suggestions provider source trace))
        \<noteq> Some (PyStr syntax_error_message)"
    using suggestions_message_differs
    by (simp add: get_code_suggestions_def ainvoke_def error_of_def split: sum.splits)
  show "error_of (fst (get_code_debugging_info provider source trace))
        \<noteq> Some (PyStr syntax_error_message)"
    using debugging_message_differs
    by (simp add: get_code_debugging_info_def ainvoke_def error_of_def split: sum.splits)
  show "error_of (fst (answer_what_if_question provider source question trace))
        \<noteq> Some (PyStr syntax_error_message)"
    using what_if_message_differs
    by (simp add: answer_what_if_question_def ainvoke_def error_of_def split: sum.splits)
qed

text \<open>The text \<^verbatim>\<open>def f(:\<close>, which is not Python, is sent to the suggest chain.\<close>

theorem unchecked_operations_reach_the_llm_witness:
  "snd (get_code_suggestions failing_provider unclosed_def []) =
      [Ainvoke SuggestChain [(''code'', PyStr unclosed_def)]]
   \<and> fst (get_code_suggestions failing_provider unclosed_def []) =
      Inr [(''error'', PyStr (lit
        ''Failed to get suggestions from LLM: An internal error occurred.''))]"
  using unchecked_operations_reach_the_llm [of failing_provider unclosed_def "[]"]
  by (simp add: get_code_suggestions_def ainvoke_def failing_provider_def)

section \<open>Missing fields\<close>

text \<open>
  Claim C6, as the code has it: a handler that receives a payload whose \<open>code\<close> is the
  empty string raises HTTPException 400 with the fixed message \<^verbatim>\<open>No code provided\<close>;
  \<^verbatim>\<open>/whatif\<close> raises HTTPException 400 with \<^verbatim>\<open>Code and user question required\<close> when
  \<open>code\<close> is empty or \<open>user_question\<close> is absent, null or empty. In each case the
  trace is unchanged: no service function has run. A body that lacks the \<open>code\<close> key
  never reaches a handler: the request is refused with status 422, again with the
  trace unchanged.
\<close>

theorem missing_field_is_client_error:
  "(code payload = [] \<longrightarrow>
      explain_code ast_parse provider payload trace =
        (Inl (HTTPException 400 (PyStr (lit ''No code provided''))), trace)
    \<and> suggest_improvements provider payload trace =
        (Inl (HTTPException 400 (PyStr (lit ''No code provided''))), trace)
    \<and> debug_code provider payload trace =
        (Inl (HTTPException 400 (PyStr (lit ''No code provided''))), trace))
   \<and> (code payload = [] \<or> user_question payload = None \<or> user_question payload = Some []
        \<longrightarrow>
      what_if_scenario provider payload trace =
        (Inl (HTTPException 400 (PyStr (lit ''Code and user question required''))), trace))
   \<and> (map_of body ''code'' = None \<longrightarrow>
      post ast_parse provider path body trace = (Inl RequestValidationError, trace)
      \<and> status_code (fst (post ast_parse provider path body trace)) = 422)"
  by (auto simp: explain_code_def suggest_improvements_def debug_code_def
      what_if_scenario_def post_def validate_CodeInput_def split: option.splits)

theorem missing_field_is_client_error_witness:
  "code empty_payload = []
   \<and> explain_code accepting_parse fixed_reply empty_payload [] =
        (Inl (HTTPException 400 (PyStr (lit ''No code provided''))), [])
   \<and> user_question unclosed_payload = None
   \<and> what_if_scenario fixed_reply unclosed_payload [] =
        (Inl (HTTPException 400 (PyStr (lit ''Code and user question required''))), [])
   \<and> map_of [(''language'', Some (PyStr (lit ''python'')))] ''code'' = None
   \<and> post accepting_parse fixed_reply Suggest
        [(''language'', Some (PyStr (lit ''python'')))] [] =
        (Inl RequestValidationError, [])"
proof -
  have no_code: "code empty_payload = []"
    by (simp add: empty_payload_def)
  have no_question: "user_question unclosed_payload = None"
    by (simp add: unclosed_payload_def)
  have no_key: "map_of [(''language'', Some (PyStr (lit ''python'')))] ''code'' = None"
    by simp
  show ?thesis
    using no_code no_question no_key
      missing_field_is_client_error
        [of empty_payload accepting_parse fixed_reply "[]" "[]"]
      missing_field_is_client_error
        [of unclosed_payload accepting_parse fixed_reply "[]" "[]"]
      missing_field_is_client_error
        [of empty_payload accepting_parse fixed_reply "[]"
            "[(''language'', Some (PyStr (lit ''python'')))]" Suggest]
    by simp
qed

text \<open>
  The request \<^verbatim>\<open>{"language": "python"}\<close> to \<^verbatim>\<open>/explain\<close> has no \<open>code\<close>: it is
  answered with status 422, not 400, and not by the handler's fixed message.
\<close>

theorem missing_code_is_422:
  "status_code (fst (post accepting_parse fixed_reply Explain
       [(''language'', Some (PyStr (lit ''python'')))] [])) = 422
   \<and> fst (post accepting_parse fixed_reply Explain
       [(''language'', Some (PyStr (lit ''python'')))] [])
      \<noteq> Inl (HTTPException 400 (PyStr (lit ''No code provided'')))"
  by (simp add: post_def validate_CodeInput_def)

section \<open>Provider selection at import\<close>

lemma supported_providers:
  "map_of PROVIDER_CONFIG name = None \<longleftrightarrow>
     name \<notin> {lit ''openai'', lit ''anthropic'', lit ''groq'', lit ''google''}"
  by (simp add: map_of_eq_None_iff PROVIDER_CONFIG_def)

text \<open>
  Claim C7: if the configured provider name (lower-cased, \<^verbatim>\<open>groq\<close> when unset) is not
  one of the four supported names, or the provider's key is absent or empty, or the
  client's constructor raises an Exception, the import of \<^verbatim>\<open>llm_services\<close> raises the
  RuntimeError, so the application module that imports it never gets its handlers.
  Conversely, whenever the import returns, it returns the client that the constructor
  of a supported provider with a non-empty key built.
\<close>

theorem misconfigured_provider_stops_import:
  "(LLM_PROVIDER lower environ
        \<notin> {lit ''openai'', lit ''anthropic'', lit ''groq'', lit ''google''}
      \<or> (\<exists>config. map_of PROVIDER_CONFIG (LLM_PROVIDER lower environ) = Some config
            \<and> (environ (api_key_name config) = None
               \<or> environ (api_key_name config) = Some []
               \<or> (\<exists>e. construct (client_class config) (model config) = Inl e
                      \<and> is_Exception e)))
      \<longrightarrow> import_llm_services lower environ construct
            = Inl (RuntimeError no_provider_message))
   \<and> (\<forall>client. import_llm_services lower environ construct = Inr client \<longrightarrow>
         (\<exists>config key.
            map_of PROVIDER_CONFIG (LLM_PROVIDER lower environ) = Some config
            \<and> environ (api_key_name config) = Some key \<and> key \<noteq> []
            \<and> construct (client_class config) (model config) = Inr client))"
proof (intro conjI impI allI)
  assume "LLM_PROVIDER lower environ
        \<notin> {lit ''openai'', lit ''anthropic'', lit ''groq'', lit ''google''}
      \<or> (\<exists>config. map_of PROVIDER_CONFIG (LLM_PROVIDER lower environ) = Some config
            \<and> (environ (api_key_name config) = None
               \<or> environ (api_key_name config) = Some []
               \<or> (\<exists>e. construct (client_class config) (model config) = Inl e
                      \<and> is_Exception e)))"
  then have "select_llm lower environ construct = Inr None"
    unfolding supported_providers [symmetric]
    by (auto simp: select_llm_def split: option.splits)
  then show "import_llm_services lower environ construct
            = Inl (RuntimeError no_provider_message)"
    by (simp add: import_llm_services_def)
next
  fix client
  assume "import_llm_services lower environ construct = Inr client"
  then show "\<exists>config key.
            map_of PROVIDER_CONFIG (LLM_PROVIDER lower environ) = Some config
            \<and> environ (api_key_name config) = Some key \<and> key \<noteq> []
            \<and> construct (client_class config) (model config) = Inr client"
    by (auto simp: import_llm_services_def select_llm_def
        split: option.splits sum.splits if_splits)
qed

lemma groq_selected: "LLM_PROVIDER ascii_lower groq_environment = lit ''groq''"
  by (simp add: LLM_PROVIDER_def ascii_lower_def groq_environment_def lit_def)

lemma groq_entry:
  "map_of PROVIDER_CONFIG (lit ''groq'') =
     Some \<lparr>client_class = ChatGroq, model = lit ''llama3-8b-8192'',
           api_key_name = lit ''GROQ_API_KEY''\<rparr>"
  by (simp add: PROVIDER_CONFIG_def lit_def)

theorem misconfigured_provider_stops_import_witness:
  "LLM_PROVIDER ascii_lower groq_environment = lit ''groq''
   \<and> broken_constructor ChatGroq (lit ''llama3-8b-8192'') = Inl ImportError
   \<and> import_llm_services ascii_lower groq_environment broken_constructor =
       Inl (RuntimeError no_provider_message)
   \<and> import_llm_services ascii_lower groq_environment working_constructor =
       Inr (LLMClient ChatGroq (lit ''llama3-8b-8192''))"
proof -
  have broken: "broken_constructor ChatGroq (lit ''llama3-8b-8192'') = Inl ImportError"
    by (simp add: broken_constructor_def)
  have "\<exists>config. map_of PROVIDER_CONFIG (LLM_PROVIDER ascii_lower groq_environment)
            = Some config
          \<and> (groq_environment (api_key_name config) = None
             \<or> groq_environment (api_key_name config) = Some []
             \<or> (\<exists>e. broken_constructor (client_class config) (model config) = Inl e
                    \<and> is_Exception e))"
    using broken by (simp add: groq_selected groq_entry)
  then have stopped:
    "import_llm_services ascii_lower groq_environment broken_constructor =
       Inl (RuntimeError no_provider_message)"
    using misconfigured_provider_stops_import
      [of ascii_lower groq_environment broken_constructor]
    by blast
  have key: "groq_environment (lit ''GROQ_API_KEY'') = Some (lit ''gsk-1'')"
    by (simp add: groq_environment_def lit_def)
  have filled: "lit ''gsk-1'' \<noteq> []"
    by (simp add: lit_def)
  have started:
    "import_llm_services ascii_lower groq_environment working_constructor =
       Inr (LLMClient ChatGroq (lit ''llama3-8b-8192''))"
    using filled
    by (simp add: import_llm_services_def select_llm_def groq_selected groq_entry
        key working_constructor_def)
  show ?thesis
    using groq_selected broken stopped started by simp
qed

section \<open>Post-processing of the provider's text\<close>

text \<open>\<^verbatim>\<open>split\<close> cuts at the separator only: joining the pieces gives the text back.\<close>

lemma split_from_join:
  "concat (map (\<lambda>piece. piece @ [sep]) (split_from sep piece s)) = piece @ s @ [sep]"
  by (induction s arbitrary: piece) simp_all

lemma split_from_no_separator:
  "sep \<notin> set piece \<Longrightarrow> p \<in> set (split_from sep piece s) \<Longrightarrow> sep \<notin> set p"
proof (induction s arbitrary: piece)
  case Nil
  then show ?case by simp
next
  case (Cons c cs)
  show ?case
  proof (cases "c = sep")
    case True
    with Cons.prems have "p = piece \<or> p \<in> set (split_from sep [] cs)"
      by simp
    then show ?thesis
      using Cons.prems(1) Cons.IH [of "[]"] by auto
  next
    case False
    with Cons.prems have "p \<in> set (split_from sep (piece @ [c]) cs)"
      by simp
    moreover have "sep \<notin> set (piece @ [c])"
      using False Cons.prems(1) by auto
    ultimately show ?thesis
      using Cons.IH [of "piece @ [c]"] by blast
  qed
qed

lemma str_split_join:
  "concat (map (\<lambda>piece. piece @ [sep]) (str_split s sep)) = s @ [sep]"
  by (simp add: str_split_def split_from_join)

lemma all_dropWhile_iff:
  "(\<forall>x \<in> set (dropWhile P xs). P x) \<longleftrightarrow> (\<forall>x \<in> set xs. P x)"
proof
  assume rest: "\<forall>x \<in> set (dropWhile P xs). P x"
  have "dropWhile P xs = []"
  proof (rule ccontr)
    assume "dropWhile P xs \<noteq> []"
    then have "\<not> P (hd (dropWhile P xs))" "hd (dropWhile P xs) \<in> set (dropWhile P xs)"
      by (simp_all add: hd_dropWhile)
    with rest show False by blast
  qed
  then show "\<forall>x \<in> set xs. P x"
    by (simp add: dropWhile_eq_Nil_conv)
next
  assume "\<forall>x \<in> set xs. P x"
  then show "\<forall>x \<in> set (dropWhile P xs). P x"
    by (meson set_dropWhileD)
qed

lemma str_strip_empty_iff: "str_strip s = [] \<longleftrightarrow> blank s"
  by (simp add: str_strip_def blank_def list_all_iff dropWhile_eq_Nil_conv all_dropWhile_iff)

lemma blank_str_strip: "blank (str_strip s) \<longleftrightarrow> blank s"
  by (simp add: str_strip_def blank_def list_all_iff all_dropWhile_iff)

text \<open>What \<^verbatim>\<open>strip\<close> leaves starts and ends with a character that is not whitespace.\<close>

lemma str_strip_ends:
  assumes "str_strip s \<noteq> []"
  shows "\<not> isspace (hd (str_strip s)) \<and> \<not> isspace (last (str_strip s))"
proof -
  define lead where "lead = dropWhile isspace s"
  define kept where "kept = dropWhile isspace (rev lead)"
  have strip: "str_strip s = rev kept"
    by (simp add: str_strip_def lead_def kept_def)
  with assms have kept: "kept \<noteq> []" by simp
  then have lead: "lead \<noteq> []"
    by (auto simp: kept_def)
  have "\<not> isspace (hd kept)"
    using kept unfolding kept_def by (rule hd_dropWhile)
  then have at_end: "\<not> isspace (last (str_strip s))"
    using kept by (simp add: strip last_rev)
  have "rev lead = takeWhile isspace (rev lead) @ kept"
    by (simp add: kept_def)
  then have "last (rev lead) = last kept"
    using kept by (metis last_appendR)
  then have "hd lead = last kept"
    using lead by (simp add: last_rev)
  moreover have "\<not> isspace (hd lead)"
    using lead unfolding lead_def by (rule hd_dropWhile)
  ultimately have "\<not> isspace (hd (str_strip s))"
    using kept by (simp add: strip hd_rev)
  with at_end show ?thesis by simp
qed

lemma comprehension_filter_map:
  "concat (map (\<lambda>x. if P x then [f x] else []) xs) = map f (filter P xs)"
  by (induction xs) simp_all

lemma suggestions_list_eq:
  "suggestions_list text =
     map str_strip (filter (\<lambda>s. \<not> blank s) (str_split text newline))"
  by (simp add: suggestions_list_def comprehension_filter_map str_strip_empty_iff)

lemma potential_bugs_eq:
  "potential_bugs text =
     map (\<lambda>s. [(''issue'', PyStr (str_strip s))])
       (filter (\<lambda>s. \<not> blank s) (str_split text newline))"
  by (simp add: potential_bugs_def comprehension_filter_map str_strip_empty_iff)

lemma suggestions_evaluated:
  "suggestions_list reply_text = [lit ''Use a set.'', lit ''- Rename x.'']"
  by (simp add: suggestions_list_def reply_text_def str_split_def str_strip_def
      isspace_def newline_def lit_def)

lemma potential_bugs_evaluated:
  "potential_bugs reply_text =
     [[(''issue'', PyStr (lit ''Use a set.''))], [(''issue'', PyStr (lit ''- Rename x.''))]]"
  by (simp add: potential_bugs_def reply_text_def str_split_def str_strip_def
      isspace_def newline_def lit_def)

text \<open>
  Claim C4: for every response text, the list of suggestions and the list of debug
  records are the lines of the text (cut at newline) that are not blank, in the order
  of the text, each stripped of surrounding whitespace; no entry of either list is
  blank. These lists are what \<open>get_code_suggestions\<close> returns under
  \<^verbatim>\<open>"suggestions"\<close> and \<open>get_code_debugging_info\<close> under \<^verbatim>\<open>"potential_bugs"\<close>
  whenever the chain answers with the text.
\<close>

theorem postprocessing_drops_blank_keeps_order:
  "suggestions_list text =
     map str_strip (filter (\<lambda>s. \<not> blank s) (str_split text newline))
   \<and> potential_bugs text =
     map (\<lambda>s. [(''issue'', PyStr (str_strip s))])
       (filter (\<lambda>s. \<not> blank s) (str_split text newline))
   \<and> (\<forall>entry \<in> set (suggestions_list text). \<not> blank entry)
   \<and> (\<forall>bug \<in> set (potential_bugs text).
         \<exists>issue. bug = [(''issue'', PyStr issue)] \<and> \<not> blank issue)
   \<and> (provider (trace @ [Ainvoke SuggestChain [(''code'', PyStr source)]]) = Inr text
        \<longrightarrow> fst (get_code_suggestions provider source trace) =
              Inr [(''suggestions'',
                    PyList (map PyStr
                      (map str_strip
                        (filter (\<lambda>s. \<not> blank s) (str_split text newline)))))])
   \<and> (provider (trace @ [Ainvoke DebugChain [(''code'', PyStr source)]]) = Inr text
        \<longrightarrow> fst (get_code_debugging_info provider source trace) =
              Inr [(''potential_bugs'',
                    PyList (map PyDict
                      (map (\<lambda>s. [(''issue'', PyStr (str_strip s))])
                        (filter (\<lambda>s. \<not> blank s) (str_split text newline)))))])"
proof (intro conjI ballI impI)
  show "suggestions_list text =
     map str_strip (filter (\<lambda>s. \<not> blank s) (str_split text newline))"
    by (rule suggestions_list_eq)
  show "potential_bugs text =
     map (\<lambda>s. [(''issue'', PyStr (str_strip s))])
       (filter (\<lambda>s. \<not> blank s) (str_split text newline))"
    by (rule potential_bugs_eq)
next
  fix entry assume "entry \<in> set (suggestions_list text)"
  then obtain s where "entry = str_strip s" "\<not> blank s"
    by (auto simp: suggestions_list_eq)
  then show "\<not> blank entry"
    by (simp add: blank_str_strip)
next
  fix bug assume "bug \<in> set (potential_bugs text)"
  then obtain s where s: "bug = [(''issue'', PyStr (str_strip s))]" "\<not> blank s"
    by (auto simp: potential_bugs_eq)
  have "\<not> blank (str_strip s)"
    using s(2) by (simp add: blank_str_strip)
  with s(1) show "\<exists>issue. bug = [(''issue'', PyStr issue)] \<and> \<not> blank issue"
    by blast
next
  assume "provider (trace @ [Ainvoke SuggestChain [(''code'', PyStr source)]]) = Inr text"
  then have "fst (get_code_suggestions provider source trace) =
      Inr [(''suggestions'', PyList (map PyStr (suggestions_list text)))]"
    by (simp add: get_code_suggestions_def ainvoke_def)
  then show "fst (get_code_suggestions provider source trace) =
      Inr [(''suggestions'',
            PyList (map PyStr
              (map str_strip
                (filter (\<lambda>s. \<not> blank s) (str_split text newline)))))]"
    by (simp only: suggestions_list_eq)
next
  assume "provider (trace @ [Ainvoke DebugChain [(''code'', PyStr source)]]) = Inr text"
  then have "fst (get_code_debugging_info provider source trace) =
      Inr [(''potential_bugs'', PyList (map PyDict (potential_bugs text)))]"
    by (simp add: get_code_debugging_info_def ainvoke_def)
  then show "fst (get_code_debugging_info provider source trace) =
      Inr [(''potential_bugs'',
            PyList (map PyDict
              (map (\<lambda>s. [(''issue'', PyStr (str_strip s))])
                (filter (\<lambda>s. \<not> blank s) (str_split text newline)))))]"
    by (simp only: potential_bugs_eq)
qed

text \<open>
  A provider that answers with three lines, the middle one holding only an ideographic
  space and a space: \<open>get_code_suggestions\<close> returns two suggestions, in order,
  without their surrounding blanks and tab.
\<close>

theorem postprocessing_drops_blank_keeps_order_witness:
  "fixed_reply ([] @ [Ainvoke SuggestChain [(''code'', PyStr unclosed_def)]]) = Inr reply_text
   \<and> filter (\<lambda>s. \<not> blank s) (str_split reply_text newline) =
       [[32, 85, 115, 101, 32, 97, 32, 115, 101, 116, 46, 9],
        [45, 32, 82, 101, 110, 97, 109, 101, 32, 120, 46]]
   \<and> fst (get_code_suggestions fixed_reply unclosed_def []) =
       Inr [(''suggestions'',
             PyList [PyStr (lit ''Use a set.''), PyStr (lit ''- Rename x.'')])]
   \<and> suggestions_list reply_text = [lit ''Use a set.'', lit ''- Rename x.'']
   \<and> \<not> blank (lit ''Use a set.'') \<and> \<not> blank (lit ''- Rename x.'')"
proof -
  have answered:
    "fixed_reply ([] @ [Ainvoke SuggestChain [(''code'', PyStr unclosed_def)]])
       = Inr reply_text"
    by (simp add: fixed_reply_def)
  have kept: "filter (\<lambda>s. \<not> blank s) (str_split reply_text newline) =
       [[32, 85, 115, 101, 32, 97, 32, 115, 101, 116, 46, 9],
        [45, 32, 82, 101, 110, 97, 109, 101, 32, 120, 46]]"
    by (simp add: blank_def reply_text_def str_split_def isspace_def newline_def)
  have facts:
    "suggestions_list reply_text =
       map str_strip (filter (\<lambda>s. \<not> blank s) (str_split reply_text newline))"
    "\<forall>entry \<in> set (suggestions_list reply_text). \<not> blank entry"
    "fst (get_code_suggestions fixed_reply unclosed_def []) =
       Inr [(''suggestions'',
             PyList (map PyStr
               (map str_strip
                 (filter (\<lambda>s. \<not> blank s) (str_split reply_text newline)))))]"
    using postprocessing_drops_blank_keeps_order
      [of reply_text fixed_reply "[]" unclosed_def] answered
    by blast+
  have stripped:
    "map str_strip
       [[32, 85, 115, 101, 32, 97, 32, 115, 101, 116, 46, 9],
        [45, 32, 82, 101, 110, 97, 109, 101, 32, 120, 46]] =
     [lit ''Use a set.'', lit ''- Rename x.'']"
    by (simp add: str_strip_def isspace_def lit_def)
  have listed: "suggestions_list reply_text = [lit ''Use a set.'', lit ''- Rename x.'']"
    using facts(1) by (simp only: kept stripped)
  have returned: "fst (get_code_suggestions fixed_reply unclosed_def []) =
       Inr [(''suggestions'',
             PyList [PyStr (lit ''Use a set.''), PyStr (lit ''- Rename x.'')])]"
    using facts(3) stripped by (simp add: kept)
  have "\<not> blank (lit ''Use a set.'') \<and> \<not> blank (lit ''- Rename x.'')"
    using facts(2) by (simp add: listed)
  with answered kept returned listed show ?thesis
    by blast
qed

text \<open>
  Claim C10: for every response text, each record of \<open>potential_bugs\<close> has exactly one
  key, \<^verbatim>\<open>"issue"\<close>, whose value is a line of the text after \<^verbatim>\<open>strip\<close>: it is not empty
  and neither starts nor ends with whitespace. No record has a \<^verbatim>\<open>"line"\<close> key. These
  records are what \<open>get_code_debugging_info\<close> returns under \<^verbatim>\<open>"potential_bugs"\<close> when
  the chain answers with the text.
\<close>

theorem potential_bugs_records_hold_issue_only:
  "(\<forall>bug \<in> set (potential_bugs text).
      \<exists>line issue. line \<in> set (str_split text newline) \<and> issue = str_strip line
        \<and> bug = [(''issue'', PyStr issue)] \<and> map fst bug = [''issue'']
        \<and> issue \<noteq> [] \<and> \<not> isspace (hd issue) \<and> \<not> isspace (last issue)
        \<and> map_of bug ''line'' = None)
   \<and> (provider (trace @ [Ainvoke DebugChain [(''code'', PyStr source)]]) = Inr text
        \<longrightarrow> fst (get_code_debugging_info provider source trace) =
              Inr [(''potential_bugs'', PyList (map PyDict (potential_bugs text)))])"
proof (intro conjI ballI impI)
  fix bug assume "bug \<in> set (potential_bugs text)"
  then obtain line where line: "line \<in> set (str_split text newline)"
      "bug = [(''issue'', PyStr (str_strip line))]" "str_strip line \<noteq> []"
    by (auto simp: potential_bugs_def split: if_splits)
  from line(3) have "\<not> isspace (hd (str_strip line)) \<and> \<not> isspace (last (str_strip line))"
    by (rule str_strip_ends)
  with line show "\<exists>line issue. line \<in> set (str_split text newline) \<and> issue = str_strip line
        \<and> bug = [(''issue'', PyStr issue)] \<and> map fst bug = [''issue'']
        \<and> issue \<noteq> [] \<and> \<not> isspace (hd issue) \<and> \<not> isspace (last issue)
        \<and> map_of bug ''line'' = None"
    by (intro exI [of _ line] exI [of _ "str_strip line"]) simp
next
  assume "provider (trace @ [Ainvoke DebugChain [(''code'', PyStr source)]]) = Inr text"
  then show "fst (get_code_debugging_info provider source trace) =
              Inr [(''potential_bugs'', PyList (map PyDict (potential_bugs text)))]"
    by (simp add: get_code_debugging_info_def ainvoke_def)
qed

theorem potential_bugs_records_hold_issue_only_witness:
  "potential_bugs reply_text =
     [[(''issue'', PyStr (lit ''Use a set.''))], [(''issue'', PyStr (lit ''- Rename x.''))]]
   \<and> map_of [(''issue'', PyStr (lit ''Use a set.''))] ''line'' = None
   \<and> fixed_reply [Ainvoke DebugChain [(''code'', PyStr unclosed_def)]] = Inr reply_text
   \<and> fst (get_code_debugging_info fixed_reply unclosed_def []) =
       Inr [(''potential_bugs'',
             PyList [PyDict [(''issue'', PyStr (lit ''Use a set.''))],
                     PyDict [(''issue'', PyStr (lit ''- Rename x.''))]])]"
proof -
  have answered:
    "fixed_reply ([] @ [Ainvoke DebugChain [(''code'', PyStr unclosed_def)]]) = Inr reply_text"
    by (simp add: fixed_reply_def)
  have "fst (get_code_debugging_info fixed_reply unclosed_def []) =
          Inr [(''potential_bugs'', PyList (map PyDict (potential_bugs reply_text)))]"
    using potential_bugs_records_hold_issue_only
      [of reply_text fixed_reply "[]" unclosed_def] answered
    by blast
  then show ?thesis
    using answered by (simp add: potential_bugs_evaluated)
qed

section \<open>Shape of the service results\<close>

text \<open>
  Claim C9: every dictionary a service function returns has exactly one key: the
  operation's payload field (\<^verbatim>\<open>overall_summary\<close>, \<^verbatim>\<open>suggestions\<close>, \<^verbatim>\<open>potential_bugs\<close> or
  \<^verbatim>\<open>explanation\<close>) or \<^verbatim>\<open>error\<close>.
\<close>

theorem service_results_have_one_key:
  "(\<forall>result. fst (get_code_explanation ast_parse provider source trace) = Inr result
       \<longrightarrow> map fst result = [''overall_summary''] \<or> map fst result = [''error''])
   \<and> (\<forall>result. fst (get_code_suggestions provider source trace) = Inr result
       \<longrightarrow> map fst result = [''suggestions''] \<or> map fst result = [''error''])
   \<and> (\<forall>result. fst (get_code_debugging_info provider source trace) = Inr result
       \<longrightarrow> map fst result = [''potential_bugs''] \<or> map fst result = [''error''])
   \<and> (\<forall>result. fst (answer_what_if_question provider source question trace) = Inr result
       \<longrightarrow> map fst result = [''explanation''] \<or> map fst result = [''error''])"
proof (intro conjI allI impI)
  fix result
  assume "fst (get_code_explanation ast_parse provider source trace) = Inr result"
  then show "map fst result = [''overall_summary''] \<or> map fst result = [''error'']"
    by (auto simp: get_code_explanation_def parse_python_code_def ainvoke_def
        split: sum.splits option.splits if_splits)
next
  fix result
  assume "fst (get_code_suggestions provider source trace) = Inr result"
  then show "map fst result = [''suggestions''] \<or> map fst result = [''error'']"
    by (auto simp: get_code_suggestions_def ainvoke_def split: sum.splits if_splits)
next
  fix result
  assume "fst (get_code_debugging_info provider source trace) = Inr result"
  then show "map fst result = [''potential_bugs''] \<or> map fst result = [''error'']"
    by (auto simp: get_code_debugging_info_def ainvoke_def split: sum.splits if_splits)
next
  fix result
  assume "fst (answer_what_if_question provider source question trace) = Inr result"
  then show "map fst result = [''explanation''] \<or> map fst result = [''error'']"
    by (auto simp: answer_what_if_question_def ainvoke_def split: sum.splits if_splits)
qed

theorem service_results_have_one_key_witness:
  "fst (get_code_explanation accepting_parse fixed_reply unclosed_def []) =
      Inr [(''overall_summary'', PyStr reply_text)]
   \<and> map fst [(''overall_summary'', PyStr reply_text)] = [''overall_summary'']
   \<and> fst (answer_what_if_question failing_provider unclosed_def unclosed_def []) =
      Inr [(''error'', PyStr (lit
        ''Failed to answer 'what if' question: An internal error occurred.''))]"
proof -
  have explained:
    "fst (get_code_explanation accepting_parse fixed_reply unclosed_def []) =
      Inr [(''overall_summary'', PyStr reply_text)]"
    by (simp add: get_code_explanation_def parse_python_code_def accepting_parse_def
        ainvoke_def fixed_reply_def)
  have failed:
    "fst (answer_what_if_question failing_provider unclosed_def unclosed_def []) =
      Inr [(''error'', PyStr (lit
        ''Failed to answer 'what if' question: An internal error occurred.''))]"
    by (simp add: answer_what_if_question_def ainvoke_def failing_provider_def)
  show ?thesis
    using explained failed
      service_results_have_one_key
        [of accepting_parse fixed_reply unclosed_def "[]" unclosed_def]
    by simp
qed

end
